theory Spec2Isabelle
  imports Complex_Main
begin

section \<open>Data model\<close>

text \<open>
  The chart editor (\<^verbatim>\<open>ChartEditor\<close>) and the chart viewer (\<^verbatim>\<open>ChartViewer\<close>) work on
  the \<^verbatim>\<open>ChartButton\<close> interface of \<^verbatim>\<open>Chart.tsx\<close>. TypeScript numbers are modelled as
  \<^typ>\<open>real\<close> (the handlers only add, subtract and take \<^verbatim>\<open>Math.max\<close>/\<^verbatim>\<open>Math.min\<close>);
  rounding and \<^verbatim>\<open>NaN\<close> are outside the model. Record fields carry the prefix \<open>b_\<close>
  because \<open>id\<close>, \<open>x\<close> and \<open>y\<close> would otherwise hide HOL names and variables.

  The optional \<^verbatim>\<open>type\<close> field holds one of the literals \<^verbatim>\<open>'normal'\<close>, \<^verbatim>\<open>'label'\<close>,
  \<^verbatim>\<open>'exit'\<close> or is absent.
\<close>

datatype ButtonType = TNormal | TLabel | TExit

record ChartButton =
  b_id :: string
  b_name :: string
  b_color :: string
  b_linkedItem :: string
  b_x :: real
  b_y :: real
  b_width :: real
  b_height :: real
  b_type :: "ButtonType option"

text \<open>The result of \<^verbatim>\<open>getBoundingClientRect()\<close>, as far as the handlers read it.\<close>

record DOMRect =
  r_left :: real
  r_top :: real
  r_width :: real
  r_height :: real

text \<open>
  The eight string literals that \<^verbatim>\<open>getResizeDirection\<close> can return; its \<^verbatim>\<open>null\<close> is
  \<^term>\<open>None\<close>.
\<close>

datatype Direction = Dir_n | Dir_s | Dir_e | Dir_w | Dir_ne | Dir_nw | Dir_se | Dir_sw

text \<open>
  Modelled from the spec: the range entity (\<^verbatim>\<open>Range\<close> of \<^verbatim>\<open>RangeContext\<close>, whose
  declaration is not part of the sources) is an identifier with a display name.
\<close>

record Range =
  range_id :: string
  range_name :: string

text \<open>
  The React state of \<^verbatim>\<open>ChartEditor\<close> that the handlers below read or write. Each
  handler is modelled as seeing the current state, one event at a time.
\<close>

record EditorState =
  buttons :: "ChartButton list"
  isButtonModalOpen :: bool
  editingButton :: "ChartButton option"
  activeButtonId :: "string option"
  isDragging :: bool
  isResizing :: bool
  dragOffset :: "real \<times> real"
  resizeDirection :: "Direction option"

text \<open>The initial values of that state, for a chart with the given buttons.\<close>

definition initialState :: "ChartButton list \<Rightarrow> EditorState" where
  "initialState chartButtons =
     \<lparr> buttons = chartButtons, isButtonModalOpen = False, editingButton = None,
       activeButtonId = None, isDragging = False, isResizing = False,
       dragOffset = (0, 0), resizeDirection = None \<rparr>"

section \<open>Adding a button and the property dialog\<close>

text \<open>
  \<^verbatim>\<open>String(n)\<close> for the non-negative integer that \<^verbatim>\<open>Date.now()\<close> returns: its
  decimal digits, most significant first.
\<close>

definition digitChar :: "nat \<Rightarrow> char" where
  "digitChar d = char_of (of_char (CHR ''0'') + d)"

fun string_of_nat :: "nat \<Rightarrow> string" where
  "string_of_nat n =
     (let lastDigit = [digitChar (n mod 10)]
      in if n < 10 then lastDigit else string_of_nat (n div 10) @ lastDigit)"

declare string_of_nat.simps [simp del]

text \<open>The UTF-8 bytes of the Cyrillic literal that names a new button.\<close>

definition newButtonName :: string where
  "newButtonName =
     [CHR 0xD0, CHR 0x9D, CHR 0xD0, CHR 0xBE, CHR 0xD0, CHR 0xB2, CHR 0xD0, CHR 0xB0,
      CHR 0xD1, CHR 0x8F, CHR 0x20, CHR 0xD0, CHR 0xBA, CHR 0xD0, CHR 0xBD, CHR 0xD0,
      CHR 0xBE, CHR 0xD0, CHR 0xBF, CHR 0xD0, CHR 0xBA, CHR 0xD0, CHR 0xB0]"

text \<open>
  \<^verbatim>\<open>handleAddButton\<close>. \<open>now\<close> is the value of \<^verbatim>\<open>Date.now()\<close>, \<open>allRanges\<close> the ranges
  of the range context.
\<close>

definition newButton :: "nat \<Rightarrow> Range list \<Rightarrow> ChartButton" where
  "newButton now allRanges =
     \<lparr> b_id = string_of_nat now,
       b_name = newButtonName,
       b_color = ''#60A5FA'',
       b_linkedItem = (case allRanges of r # _ \<Rightarrow> range_id r | [] \<Rightarrow> ''label-only''),
       b_x = 50,
       b_y = 50,
       b_width = 120,
       b_height = 40,
       b_type = Some (if length allRanges > 0 then TNormal else TLabel) \<rparr>"

definition handleAddButton :: "nat \<Rightarrow> Range list \<Rightarrow> EditorState \<Rightarrow> EditorState" where
  "handleAddButton now allRanges st =
     st\<lparr> buttons := buttons st @ [newButton now allRanges],
         editingButton := Some (newButton now allRanges),
         isButtonModalOpen := True \<rparr>"

definition handleSettingsClick :: "ChartButton \<Rightarrow> EditorState \<Rightarrow> EditorState" where
  "handleSettingsClick button st =
     st\<lparr> editingButton := Some button, isButtonModalOpen := True \<rparr>"

definition handleSaveButtonProperties :: "EditorState \<Rightarrow> EditorState" where
  "handleSaveButtonProperties st =
     (case editingButton st of
        Some eb \<Rightarrow>
          st\<lparr> buttons := map (\<lambda>btn. if b_id btn = b_id eb then eb else btn) (buttons st),
              isButtonModalOpen := False,
              editingButton := None \<rparr>
      | None \<Rightarrow> st)"

definition handleCancelButtonProperties :: "EditorState \<Rightarrow> EditorState" where
  "handleCancelButtonProperties st =
     (let st1 =
        (case editingButton st of
           Some eb \<Rightarrow>
             if \<not> list_ex (\<lambda>b. b_id b = b_id eb) (buttons st)
             then st\<lparr> buttons := filter (\<lambda>b. b_id b \<noteq> b_id eb) (buttons st) \<rparr>
             else st
         | None \<Rightarrow> st)
      in st1\<lparr> isButtonModalOpen := False, editingButton := None \<rparr>)"

text \<open>
  The width and height fields of the dialog: \<^verbatim>\<open>parseInt(e.target.value) || 0\<close>.
  The field is a number input, so its value is empty or a decimal numeral; \<open>parseInt\<close>
  reads an optional sign and the leading digits, and gives \<^verbatim>\<open>NaN\<close> (\<^term>\<open>None\<close>) when
  there is no digit.
\<close>

definition isDigit :: "char \<Rightarrow> bool" where
  "isDigit c = (48 \<le> (of_char c :: nat) \<and> (of_char c :: nat) \<le> 57)"

definition digitsValue :: "string \<Rightarrow> nat" where
  "digitsValue ds = foldl (\<lambda>acc c. 10 * acc + (of_char c - 48)) 0 ds"

definition parseInt :: "string \<Rightarrow> int option" where
  "parseInt s =
     (let (neg, rest) =
            (case s of
               c # cs \<Rightarrow> if c = CHR ''-'' then (True, cs)
                         else if c = CHR ''+'' then (False, cs) else (False, s)
             | [] \<Rightarrow> (False, s));
          ds = takeWhile isDigit rest
      in if ds = [] then None
         else Some (if neg then - int (digitsValue ds) else int (digitsValue ds)))"

definition orZero :: "int option \<Rightarrow> real" where
  "orZero v = (case v of None \<Rightarrow> 0 | Some n \<Rightarrow> if n = 0 then 0 else of_int n)"

definition setDraftWidth :: "string \<Rightarrow> EditorState \<Rightarrow> EditorState" where
  "setDraftWidth v st =
     st\<lparr> editingButton :=
           (case editingButton st of
              Some prev \<Rightarrow> Some (prev\<lparr> b_width := orZero (parseInt v) \<rparr>)
            | None \<Rightarrow> None) \<rparr>"

definition setDraftHeight :: "string \<Rightarrow> EditorState \<Rightarrow> EditorState" where
  "setDraftHeight v st =
     st\<lparr> editingButton :=
           (case editingButton st of
              Some prev \<Rightarrow> Some (prev\<lparr> b_height := orZero (parseInt v) \<rparr>)
            | None \<Rightarrow> None) \<rparr>"

section \<open>Drag and resize\<close>

definition tolerance :: real where
  "tolerance = 8"

text \<open>
  \<^verbatim>\<open>getResizeDirection\<close>: \<open>rect\<close> is the bounding rectangle of the event's target,
  \<open>clientX\<close>/\<open>clientY\<close> the coordinates of the mouse event or of the first touch.
\<close>

definition getResizeDirection :: "DOMRect \<Rightarrow> real \<Rightarrow> real \<Rightarrow> Direction option" where
  "getResizeDirection rect clientX clientY =
     (let x = clientX - r_left rect;
          y = clientY - r_top rect
      in if x < tolerance \<and> y < tolerance then Some Dir_nw
         else if x > r_width rect - tolerance \<and> y < tolerance then Some Dir_ne
         else if x < tolerance \<and> y > r_height rect - tolerance then Some Dir_sw
         else if x > r_width rect - tolerance \<and> y > r_height rect - tolerance then Some Dir_se
         else if x < tolerance then Some Dir_w
         else if x > r_width rect - tolerance then Some Dir_e
         else if y < tolerance then Some Dir_n
         else if y > r_height rect - tolerance then Some Dir_s
         else None)"

text \<open>
  \<^verbatim>\<open>handleMouseDown\<close> and \<^verbatim>\<open>handleTouchStart\<close>. \<open>onSettings\<close> says whether the target
  lies inside the settings icon; \<open>targetRect\<close> is the rectangle of \<^verbatim>\<open>e.target\<close> and
  \<open>ownRect\<close> that of \<^verbatim>\<open>e.currentTarget\<close>. For a touch start the coordinates are those
  of the first touch, which a touch start always has. Both handlers have the same body.
\<close>

definition handleMouseDown ::
  "bool \<Rightarrow> ChartButton \<Rightarrow> DOMRect \<Rightarrow> DOMRect \<Rightarrow> real \<Rightarrow> real \<Rightarrow> EditorState \<Rightarrow> EditorState" where
  "handleMouseDown onSettings button targetRect ownRect clientX clientY st =
     (if onSettings then st
      else
        (let st1 = st\<lparr> activeButtonId := Some (b_id button) \<rparr>;
             st2 = (case getResizeDirection targetRect clientX clientY of
                      Some direction \<Rightarrow> st1\<lparr> isResizing := True, resizeDirection := Some direction \<rparr>
                    | None \<Rightarrow> st1\<lparr> isDragging := True \<rparr>)
         in st2\<lparr> dragOffset := (clientX - r_left ownRect, clientY - r_top ownRect) \<rparr>))"

definition handleTouchStart ::
  "bool \<Rightarrow> ChartButton \<Rightarrow> DOMRect \<Rightarrow> DOMRect \<Rightarrow> real \<Rightarrow> real \<Rightarrow> EditorState \<Rightarrow> EditorState" where
  "handleTouchStart onSettings button targetRect ownRect touchX touchY st =
     handleMouseDown onSettings button targetRect ownRect touchX touchY st"

definition handleMouseUp :: "EditorState \<Rightarrow> EditorState" where
  "handleMouseUp st =
     st\<lparr> isDragging := False, isResizing := False,
         activeButtonId := None, resizeDirection := None \<rparr>"

definition minSize :: real where
  "minSize = 50"

text \<open>
  The \<^verbatim>\<open>switch (resizeDirection)\<close> of the move handlers: the candidate
  \<open>(newX, newY, newWidth, newHeight)\<close> before the boundary checks.
\<close>

fun resizeCandidate ::
  "Direction \<Rightarrow> ChartButton \<Rightarrow> DOMRect \<Rightarrow> real \<Rightarrow> real \<Rightarrow> real \<times> real \<times> real \<times> real" where
  "resizeCandidate Dir_e cur canvasRect clientX clientY =
     (b_x cur, b_y cur,
      max minSize (clientX - (b_x cur + r_left canvasRect)), b_height cur)"
| "resizeCandidate Dir_s cur canvasRect clientX clientY =
     (b_x cur, b_y cur,
      b_width cur, max minSize (clientY - (b_y cur + r_top canvasRect)))"
| "resizeCandidate Dir_w cur canvasRect clientX clientY =
     (let diffX = clientX - (b_x cur + r_left canvasRect)
      in (b_x cur + diffX, b_y cur,
          max minSize (b_width cur - diffX), b_height cur))"
| "resizeCandidate Dir_n cur canvasRect clientX clientY =
     (let diffY = clientY - (b_y cur + r_top canvasRect)
      in (b_x cur, b_y cur + diffY,
          b_width cur, max minSize (b_height cur - diffY)))"
| "resizeCandidate Dir_se cur canvasRect clientX clientY =
     (b_x cur, b_y cur,
      max minSize (clientX - (b_x cur + r_left canvasRect)),
      max minSize (clientY - (b_y cur + r_top canvasRect)))"
| "resizeCandidate Dir_sw cur canvasRect clientX clientY =
     (let diffX_sw = clientX - (b_x cur + r_left canvasRect)
      in (b_x cur + diffX_sw, b_y cur,
          max minSize (b_width cur - diffX_sw),
          max minSize (clientY - (b_y cur + r_top canvasRect))))"
| "resizeCandidate Dir_ne cur canvasRect clientX clientY =
     (let diffY_ne = clientY - (b_y cur + r_top canvasRect)
      in (b_x cur, b_y cur + diffY_ne,
          max minSize (clientX - (b_x cur + r_left canvasRect)),
          max minSize (b_height cur - diffY_ne)))"
| "resizeCandidate Dir_nw cur canvasRect clientX clientY =
     (let diffX_nw = clientX - (b_x cur + r_left canvasRect);
          diffY_nw = clientY - (b_y cur + r_top canvasRect)
      in (b_x cur + diffX_nw, b_y cur + diffY_nw,
          max minSize (b_width cur - diffX_nw),
          max minSize (b_height cur - diffY_nw)))"

text \<open>
  The four assignments after the switch (``ensure button stays within canvas boundaries
  after resize''), in the source's order.
\<close>

definition clampResize :: "DOMRect \<Rightarrow> real \<times> real \<times> real \<times> real \<Rightarrow> real \<times> real \<times> real \<times> real" where
  "clampResize canvasRect c =
     (case c of (newX, newY, newWidth, newHeight) \<Rightarrow>
        (let newX1 = max 0 (min newX (r_width canvasRect - newWidth));
             newY1 = max 0 (min newY (r_height canvasRect - newHeight));
             newWidth1 = min newWidth (r_width canvasRect - newX1);
             newHeight1 = min newHeight (r_height canvasRect - newY1)
         in (newX1, newY1, newWidth1, newHeight1)))"

text \<open>
  The body shared by \<^verbatim>\<open>handleMouseMove\<close> and \<^verbatim>\<open>handleTouchMove\<close> once the canvas
  rectangle and the pointer coordinates are known. An empty \<^verbatim>\<open>activeButtonId\<close> is as
  falsy as \<^verbatim>\<open>null\<close>.
\<close>

definition moveButton :: "DOMRect \<Rightarrow> real \<Rightarrow> real \<Rightarrow> EditorState \<Rightarrow> EditorState" where
  "moveButton canvasRect clientX clientY st =
     (case activeButtonId st of
        None \<Rightarrow> st
      | Some aid \<Rightarrow>
          if aid = [] then st
          else
            (case find (\<lambda>b. b_id b = aid) (buttons st) of
               None \<Rightarrow> st
             | Some currentButton \<Rightarrow>
                 if isDragging st then
                   (let newX = max 0 (min (clientX - fst (dragOffset st) - r_left canvasRect)
                                          (r_width canvasRect - b_width currentButton));
                        newY = max 0 (min (clientY - snd (dragOffset st) - r_top canvasRect)
                                          (r_height canvasRect - b_height currentButton))
                    in st\<lparr> buttons :=
                            map (\<lambda>btn. if b_id btn = aid then btn\<lparr> b_x := newX, b_y := newY \<rparr>
                                       else btn) (buttons st) \<rparr>)
                 else if isResizing st then
                   (case resizeDirection st of
                      None \<Rightarrow> st
                    | Some d \<Rightarrow>
                        (case clampResize canvasRect
                                (resizeCandidate d currentButton canvasRect clientX clientY) of
                           (newX, newY, newWidth, newHeight) \<Rightarrow>
                             st\<lparr> buttons :=
                                   map (\<lambda>btn. if b_id btn = aid
                                              then btn\<lparr> b_x := newX, b_y := newY,
                                                       b_width := newWidth, b_height := newHeight \<rparr>
                                              else btn) (buttons st) \<rparr>))
                 else st))"

text \<open>
  \<^verbatim>\<open>handleMouseMove\<close>: \<open>canvas\<close> is the bounding rectangle of \<^verbatim>\<open>canvasRef.current\<close>,
  \<^term>\<open>None\<close> when the ref is empty.
\<close>

definition handleMouseMove :: "DOMRect option \<Rightarrow> real \<Rightarrow> real \<Rightarrow> EditorState \<Rightarrow> EditorState" where
  "handleMouseMove canvas clientX clientY st =
     (case canvas of
        None \<Rightarrow> st
      | Some canvasRect \<Rightarrow> moveButton canvasRect clientX clientY st)"

text \<open>\<^verbatim>\<open>handleTouchMove\<close>: only the first touch is read; without one nothing happens.\<close>

definition handleTouchMove :: "DOMRect option \<Rightarrow> (real \<times> real) list \<Rightarrow> EditorState \<Rightarrow> EditorState" where
  "handleTouchMove canvas touches st =
     (case canvas of
        None \<Rightarrow> st
      | Some canvasRect \<Rightarrow>
          (case touches of
             [] \<Rightarrow> st
           | touch # _ \<Rightarrow> moveButton canvasRect (fst touch) (snd touch) st))"

text \<open>A move event of either device, and a run of move events in arrival order.\<close>

datatype MoveEvent =
  MouseMove "DOMRect option" real real
| TouchMove "DOMRect option" "(real \<times> real) list"

fun applyMove :: "EditorState \<Rightarrow> MoveEvent \<Rightarrow> EditorState" where
  "applyMove st (MouseMove canvas clientX clientY) = handleMouseMove canvas clientX clientY st"
| "applyMove st (TouchMove canvas touches) = handleTouchMove canvas touches st"

definition applyMoves :: "EditorState \<Rightarrow> MoveEvent list \<Rightarrow> EditorState" where
  "applyMoves st es = foldl applyMove st es"

section \<open>Viewer\<close>

text \<open>
  \<^verbatim>\<open>handleButtonClick\<close> of \<^verbatim>\<open>ChartViewer\<close>: the state it writes, and the calls it makes
  (\<^verbatim>\<open>onBackToCharts()\<close>, \<^verbatim>\<open>alert(...)\<close>) as a list of effects.
\<close>

record ViewerState =
  displayedRange :: "Range option"
  showMatrixView :: bool

datatype ViewerEffect = BackToCharts | Alert string

text \<open>The UTF-8 bytes of the Cyrillic notice ``the linked range was not found''.\<close>

definition rangeNotFoundText :: string where
  "rangeNotFoundText =
     [CHR 0xD0, CHR 0x9F, CHR 0xD1, CHR 0x80, CHR 0xD0, CHR 0xB8, CHR 0xD0, CHR 0xB2,
      CHR 0xD1, CHR 0x8F, CHR 0xD0, CHR 0xB7, CHR 0xD0, CHR 0xB0, CHR 0xD0, CHR 0xBD,
      CHR 0xD0, CHR 0xBD, CHR 0xD1, CHR 0x8B, CHR 0xD0, CHR 0xB9, CHR 0x20, CHR 0xD0,
      CHR 0xB4, CHR 0xD0, CHR 0xB8, CHR 0xD0, CHR 0xB0, CHR 0xD0, CHR 0xBF, CHR 0xD0,
      CHR 0xB0, CHR 0xD0, CHR 0xB7, CHR 0xD0, CHR 0xBE, CHR 0xD0, CHR 0xBD, CHR 0x20,
      CHR 0xD0, CHR 0xBD, CHR 0xD0, CHR 0xB5, CHR 0x20, CHR 0xD0, CHR 0xBD, CHR 0xD0,
      CHR 0xB0, CHR 0xD0, CHR 0xB9, CHR 0xD0, CHR 0xB4, CHR 0xD0, CHR 0xB5, CHR 0xD0,
      CHR 0xBD, CHR 0x2E]"

definition handleButtonClick ::
  "Range list \<Rightarrow> ChartButton \<Rightarrow> ViewerState \<Rightarrow> ViewerState \<times> ViewerEffect list" where
  "handleButtonClick allRanges button vs =
     (if b_type button = Some TExit then (vs, [BackToCharts])
      else if b_type button = Some TLabel then (vs, [])
      else
        (case find (\<lambda>range. range_id range = b_linkedItem button) allRanges of
           Some linkedRange \<Rightarrow>
             (vs\<lparr> displayedRange := Some linkedRange, showMatrixView := True \<rparr>, [])
         | None \<Rightarrow>
             (vs\<lparr> displayedRange := None \<rparr>, [Alert rangeNotFoundText])))"

section \<open>Geometry predicates and sample data\<close>

text \<open>The containment invariant relative to a canvas of the given width and height.\<close>

definition contained :: "real \<Rightarrow> real \<Rightarrow> ChartButton \<Rightarrow> bool" where
  "contained cw ch b =
     (0 \<le> b_x b \<and> 0 \<le> b_y b \<and> b_x b + b_width b \<le> cw \<and> b_y b + b_height b \<le> ch)"

definition atLeastMinSize :: "ChartButton \<Rightarrow> bool" where
  "atLeastMinSize b = (minSize \<le> b_width b \<and> minSize \<le> b_height b)"

text \<open>The button that \<^verbatim>\<open>buttons.find(b => b.id === i)\<close> selects.\<close>

definition buttonById :: "string \<Rightarrow> EditorState \<Rightarrow> ChartButton option" where
  "buttonById i st = find (\<lambda>b. b_id b = i) (buttons st)"

fun canvasOf :: "MoveEvent \<Rightarrow> DOMRect option" where
  "canvasOf (MouseMove canvas clientX clientY) = canvas"
| "canvasOf (TouchMove canvas touches) = canvas"

text \<open>The canvas measured at a move event, when there is one, has the given size.\<close>

definition canvasSized :: "real \<Rightarrow> real \<Rightarrow> MoveEvent \<Rightarrow> bool" where
  "canvasSized cw ch e =
     (case canvasOf e of None \<Rightarrow> True | Some r \<Rightarrow> r_width r = cw \<and> r_height r = ch)"

text \<open>
  Sample data: an 800 by 500 canvas whose top-left corner is at \<open>(20, 90)\<close> on the screen,
  a button \<open>b1\<close> with a given geometry, and editor states in which \<open>b1\<close> is being dragged
  or resized.
\<close>

definition canvas800 :: DOMRect where
  "canvas800 = \<lparr> r_left = 20, r_top = 90, r_width = 800, r_height = 500 \<rparr>"

definition buttonAt :: "real \<Rightarrow> real \<Rightarrow> real \<Rightarrow> real \<Rightarrow> ChartButton" where
  "buttonAt px py w h =
     \<lparr> b_id = ''b1'', b_name = ''Open'', b_color = ''#60A5FA'', b_linkedItem = ''R1'',
       b_x = px, b_y = py, b_width = w, b_height = h, b_type = Some TNormal \<rparr>"

definition dragging :: "ChartButton list \<Rightarrow> real \<times> real \<Rightarrow> EditorState" where
  "dragging bs off =
     \<lparr> buttons = bs, isButtonModalOpen = False, editingButton = None,
       activeButtonId = Some ''b1'', isDragging = True, isResizing = False,
       dragOffset = off, resizeDirection = None \<rparr>"

definition resizing :: "ChartButton list \<Rightarrow> Direction \<Rightarrow> EditorState" where
  "resizing bs d =
     \<lparr> buttons = bs, isButtonModalOpen = False, editingButton = None,
       activeButtonId = Some ''b1'', isDragging = False, isResizing = True,
       dragOffset = (4, 4), resizeDirection = Some d \<rparr>"

text \<open>
  What a move event hands to the shared body: the canvas rectangle and the pointer
  coordinates, or nothing when the canvas ref is empty or a touch event has no touch.
\<close>

fun pointerOf :: "MoveEvent \<Rightarrow> (DOMRect \<times> real \<times> real) option" where
  "pointerOf (MouseMove canvas clientX clientY) =
     (case canvas of None \<Rightarrow> None | Some r \<Rightarrow> Some (r, clientX, clientY))"
| "pointerOf (TouchMove canvas touches) =
     (case canvas of None \<Rightarrow> None
      | Some r \<Rightarrow> (case touches of [] \<Rightarrow> None | t # _ \<Rightarrow> Some (r, fst t, snd t)))"

text \<open>
  A whole interaction on an empty chart: a button is added at time \<open>1700000000000\<close> with
  no range available, the dialog is confirmed, the button is pressed at its centre (its
  rectangle on the screen is \<open>newButtonRect\<close>), the pointer moves, and is released.
\<close>

definition newButtonRect :: DOMRect where
  "newButtonRect = \<lparr> r_left = 70, r_top = 140, r_width = 120, r_height = 40 \<rparr>"

definition addThenDrag :: EditorState where
  "addThenDrag =
     handleMouseUp
       (handleMouseMove (Some canvas800) 400 300
          (handleMouseDown False (newButton 1700000000000 []) newButtonRect newButtonRect 130 160
             (handleSaveButtonProperties
                (handleAddButton 1700000000000 [] (initialState [])))))"

text \<open>A second sample button, and a sample list of ranges for the viewer.\<close>

definition otherButton :: ChartButton where
  "otherButton =
     \<lparr> b_id = ''b2'', b_name = ''Back'', b_color = ''#F87171'', b_linkedItem = '''',
       b_x = 300, b_y = 200, b_width = 80, b_height = 60, b_type = Some TExit \<rparr>"

definition sampleRanges :: "Range list" where
  "sampleRanges =
     [\<lparr> range_id = ''R2'', range_name = ''UTG open'' \<rparr>,
      \<lparr> range_id = ''R3'', range_name = ''BTN open'' \<rparr>]"

definition emptyViewer :: ViewerState where
  "emptyViewer = \<lparr> displayedRange = None, showMatrixView = False \<rparr>"

section \<open>Hit zones in the words of the specification\<close>

text \<open>
  The tolerance band of each side of a box of width \<open>w\<close> and height \<open>h\<close>, for a position
  \<open>(x, y)\<close> relative to the box's top-left corner. The bands are open: a position exactly
  8 units from a side is not in that side's band.
\<close>

definition inLeftBand :: "real \<Rightarrow> bool" where
  "inLeftBand x = (x < tolerance)"

definition inRightBand :: "real \<Rightarrow> real \<Rightarrow> bool" where
  "inRightBand w x = (x > w - tolerance)"

definition inTopBand :: "real \<Rightarrow> bool" where
  "inTopBand y = (y < tolerance)"

definition inBottomBand :: "real \<Rightarrow> real \<Rightarrow> bool" where
  "inBottomBand h y = (y > h - tolerance)"

fun isCorner :: "Direction \<Rightarrow> bool" where
  "isCorner Dir_ne = True"
| "isCorner Dir_nw = True"
| "isCorner Dir_se = True"
| "isCorner Dir_sw = True"
| "isCorner _ = False"

text \<open>
  The zone of a handle: the band of its side for an edge, the bands of both adjacent sides
  for a corner.
\<close>

fun inZone :: "Direction \<Rightarrow> real \<Rightarrow> real \<Rightarrow> real \<Rightarrow> real \<Rightarrow> bool" where
  "inZone Dir_n w h x y = inTopBand y"
| "inZone Dir_s w h x y = inBottomBand h y"
| "inZone Dir_e w h x y = inRightBand w x"
| "inZone Dir_w w h x y = inLeftBand x"
| "inZone Dir_ne w h x y = (inTopBand y \<and> inRightBand w x)"
| "inZone Dir_nw w h x y = (inTopBand y \<and> inLeftBand x)"
| "inZone Dir_se w h x y = (inBottomBand h y \<and> inRightBand w x)"
| "inZone Dir_sw w h x y = (inBottomBand h y \<and> inLeftBand x)"

definition inSomeCorner :: "real \<Rightarrow> real \<Rightarrow> real \<Rightarrow> real \<Rightarrow> bool" where
  "inSomeCorner w h x y =
     (inZone Dir_nw w h x y \<or> inZone Dir_ne w h x y
      \<or> inZone Dir_sw w h x y \<or> inZone Dir_se w h x y)"

definition inSomeBand :: "real \<Rightarrow> real \<Rightarrow> real \<Rightarrow> real \<Rightarrow> bool" where
  "inSomeBand w h x y = (inLeftBand x \<or> inRightBand w x \<or> inTopBand y \<or> inBottomBand h y)"

section \<open>Auxiliary facts about the move handlers\<close>

lemma string_of_nat_not_Nil [simp]: "string_of_nat n \<noteq> []"
  by (subst string_of_nat.simps) (simp add: Let_def)

lemma find_map_same:
  assumes "\<And>b. b_id (g b) = b_id b"
  shows "find (\<lambda>b. b_id b = aid) (map (\<lambda>btn. if b_id btn = aid then g btn else btn) xs)
         = map_option g (find (\<lambda>b. b_id b = aid) xs)"
  by (induction xs) (simp_all add: assms)

lemma find_map_other:
  assumes "\<And>b. b_id (g b) = b_id b" and "i \<noteq> aid"
  shows "find (\<lambda>b. b_id b = i) (map (\<lambda>btn. if b_id btn = aid then g btn else btn) xs)
         = find (\<lambda>b. b_id b = i) xs"
  using assms(2) by (induction xs) (auto simp: assms(1))

text \<open>The three ways a move event can end: nothing happens, a drag step, a resize step.\<close>

lemma moveButton_idle:
  assumes "activeButtonId st = None \<or> activeButtonId st = Some []
           \<or> (\<exists>aid. activeButtonId st = Some aid \<and> find (\<lambda>b. b_id b = aid) (buttons st) = None)
           \<or> (\<not> isDragging st \<and> (\<not> isResizing st \<or> resizeDirection st = None))"
  shows "moveButton r cx cy st = st"
  using assms by (auto simp: moveButton_def split: option.splits)

lemma moveButton_drag:
  assumes "activeButtonId st = Some aid" "aid \<noteq> []"
    "find (\<lambda>b. b_id b = aid) (buttons st) = Some cur" "isDragging st"
  shows "moveButton r cx cy st =
           st\<lparr> buttons :=
                 map (\<lambda>btn. if b_id btn = aid
                       then btn\<lparr> b_x := max 0 (min (cx - fst (dragOffset st) - r_left r)
                                                   (r_width r - b_width cur)),
                                b_y := max 0 (min (cy - snd (dragOffset st) - r_top r)
                                                   (r_height r - b_height cur)) \<rparr>
                       else btn) (buttons st) \<rparr>"
  using assms by (simp add: moveButton_def Let_def)

lemma moveButton_resize:
  assumes "activeButtonId st = Some aid" "aid \<noteq> []"
    "find (\<lambda>b. b_id b = aid) (buttons st) = Some cur" "\<not> isDragging st"
    "isResizing st" "resizeDirection st = Some d"
    "clampResize r (resizeCandidate d cur r cx cy) = (nx, ny, nw, nh)"
  shows "moveButton r cx cy st =
           st\<lparr> buttons :=
                 map (\<lambda>btn. if b_id btn = aid
                       then btn\<lparr> b_x := nx, b_y := ny, b_width := nw, b_height := nh \<rparr>
                       else btn) (buttons st) \<rparr>"
  using assms by (simp add: moveButton_def)

lemma moveButton_cases:
  obtains (idle) "moveButton r cx cy st = st"
    | (drag) aid cur where "activeButtonId st = Some aid" "aid \<noteq> []"
        "find (\<lambda>b. b_id b = aid) (buttons st) = Some cur" "isDragging st"
    | (resize) aid cur d where "activeButtonId st = Some aid" "aid \<noteq> []"
        "find (\<lambda>b. b_id b = aid) (buttons st) = Some cur" "\<not> isDragging st"
        "isResizing st" "resizeDirection st = Some d"
proof (cases "activeButtonId st = None \<or> activeButtonId st = Some []
           \<or> (\<exists>aid. activeButtonId st = Some aid \<and> find (\<lambda>b. b_id b = aid) (buttons st) = None)
           \<or> (\<not> isDragging st \<and> (\<not> isResizing st \<or> resizeDirection st = None))")
  case True
  then show ?thesis using moveButton_idle[of st r cx cy] idle by blast
next
  case False
  then obtain aid cur where a: "activeButtonId st = Some aid" "aid \<noteq> []"
        "find (\<lambda>b. b_id b = aid) (buttons st) = Some cur"
    by auto
  show ?thesis
  proof (cases "isDragging st")
    case True
    then show ?thesis using a drag by blast
  next
    case nd: False
    with False obtain d where "isResizing st" "resizeDirection st = Some d" by auto
    then show ?thesis using a nd resize by blast
  qed
qed

lemma applyMove_pointerOf:
  "applyMove st e = (case pointerOf e of None \<Rightarrow> st | Some (r, cx, cy) \<Rightarrow> moveButton r cx cy st)"
  by (cases e) (auto simp: handleMouseMove_def handleTouchMove_def split: option.splits list.splits)

lemma clampResize_inv:
  assumes "minSize \<le> w0" "minSize \<le> h0" "minSize \<le> r_width r" "minSize \<le> r_height r"
    and "clampResize r (x0, y0, w0, h0) = (nx, ny, nw, nh)"
  shows "0 \<le> nx \<and> 0 \<le> ny \<and> nx + nw \<le> r_width r \<and> ny + nh \<le> r_height r
         \<and> minSize \<le> nw \<and> minSize \<le> nh"
  using assms by (auto simp: clampResize_def Let_def minSize_def max_def min_def split: if_splits)

lemma resizeCandidate_sized:
  assumes "atLeastMinSize b" "resizeCandidate d b r cx cy = (x0, y0, w0, h0)"
  shows "minSize \<le> w0 \<and> minSize \<le> h0"
  using assms by (cases d) (auto simp: atLeastMinSize_def Let_def)

lemma moveButton_inv:
  assumes "buttonById i st = Some b" "contained (r_width r) (r_height r) b" "atLeastMinSize b"
  shows "\<exists>b'. buttonById i (moveButton r cx cy st) = Some b'
           \<and> contained (r_width r) (r_height r) b' \<and> atLeastMinSize b'"
proof -
  have cw: "minSize \<le> r_width r" and chh: "minSize \<le> r_height r"
    using assms(2,3) by (auto simp: contained_def atLeastMinSize_def minSize_def)
  show ?thesis
  proof (cases rule: moveButton_cases[of r cx cy st])
    case idle
    then show ?thesis using assms by simp
  next
    case (drag aid cur)
    define g where "g = (\<lambda>btn::ChartButton.
      btn\<lparr> b_x := max 0 (min (cx - fst (dragOffset st) - r_left r) (r_width r - b_width cur)),
           b_y := max 0 (min (cy - snd (dragOffset st) - r_top r) (r_height r - b_height cur)) \<rparr>)"
    have st': "moveButton r cx cy st =
        st\<lparr> buttons := map (\<lambda>btn. if b_id btn = aid then g btn else btn) (buttons st) \<rparr>"
      using moveButton_drag[OF drag] by (simp add: g_def)
    have gid: "\<And>b. b_id (g b) = b_id b" by (simp add: g_def)
    show ?thesis
    proof (cases "i = aid")
      case True
      then have cb: "cur = b" using drag(3) assms(1) by (simp add: buttonById_def)
      then have "buttonById i (moveButton r cx cy st) = Some (g b)"
        using find_map_same[of g aid "buttons st", OF gid] drag(3) True
        by (simp add: st' buttonById_def)
      moreover have "contained (r_width r) (r_height r) (g b) \<and> atLeastMinSize (g b)"
        using assms(2,3) cb by (auto simp: g_def contained_def atLeastMinSize_def)
      ultimately show ?thesis by blast
    next
      case False
      then show ?thesis using find_map_other[of g i aid "buttons st", OF gid] assms
        by (simp add: st' buttonById_def)
    qed
  next
    case (resize aid cur d)
    obtain x0 y0 w0 h0 where cand: "resizeCandidate d cur r cx cy = (x0, y0, w0, h0)"
      by (metis prod_cases4)
    obtain nx ny nw nh where cl: "clampResize r (x0, y0, w0, h0) = (nx, ny, nw, nh)"
      by (metis prod_cases4)
    define g where "g = (\<lambda>btn::ChartButton.
      btn\<lparr> b_x := nx, b_y := ny, b_width := nw, b_height := nh \<rparr>)"
    have st': "moveButton r cx cy st =
        st\<lparr> buttons := map (\<lambda>btn. if b_id btn = aid then g btn else btn) (buttons st) \<rparr>"
      using moveButton_resize[OF resize, of r cx cy nx ny nw nh] cand cl by (simp add: g_def)
    have gid: "\<And>b. b_id (g b) = b_id b" by (simp add: g_def)
    show ?thesis
    proof (cases "i = aid")
      case True
      then have cb: "cur = b" using resize(3) assms(1) by (simp add: buttonById_def)
      then have "buttonById i (moveButton r cx cy st) = Some (g b)"
        using find_map_same[of g aid "buttons st", OF gid] resize(3) True
        by (simp add: st' buttonById_def)
      moreover have "contained (r_width r) (r_height r) (g b) \<and> atLeastMinSize (g b)"
        using clampResize_inv[OF _ _ cw chh cl]
          resizeCandidate_sized[OF assms(3) cand[unfolded cb]]
        by (simp add: g_def contained_def atLeastMinSize_def)
      ultimately show ?thesis by blast
    next
      case False
      then show ?thesis using find_map_other[of g i aid "buttons st", OF gid] assms
        by (simp add: st' buttonById_def)
    qed
  qed
qed

lemma applyMove_inv:
  assumes "buttonById i st = Some b" "contained cw ch b" "atLeastMinSize b" "canvasSized cw ch e"
  shows "\<exists>b'. buttonById i (applyMove st e) = Some b' \<and> contained cw ch b' \<and> atLeastMinSize b'"
proof (cases e)
  case (MouseMove canvas cx cy)
  show ?thesis
  proof (cases canvas)
    case None
    then show ?thesis using assms MouseMove by (simp add: handleMouseMove_def)
  next
    case (Some r)
    then have "r_width r = cw" "r_height r = ch"
      using assms(4) MouseMove by (simp_all add: canvasSized_def)
    then show ?thesis
      using moveButton_inv[of i st b r cx cy] assms(1-3) MouseMove Some
      by (simp add: handleMouseMove_def)
  qed
next
  case (TouchMove canvas touches)
  show ?thesis
  proof (cases canvas)
    case None
    then show ?thesis using assms TouchMove by (simp add: handleTouchMove_def)
  next
    case (Some r)
    then have rr: "r_width r = cw" "r_height r = ch"
      using assms(4) TouchMove by (simp_all add: canvasSized_def)
    show ?thesis
    proof (cases touches)
      case Nil
      then show ?thesis using assms TouchMove Some by (simp add: handleTouchMove_def)
    next
      case (Cons t ts)
      then show ?thesis
        using moveButton_inv[of i st b r "fst t" "snd t"] assms(1-3) TouchMove Some rr
        by (simp add: handleTouchMove_def)
    qed
  qed
qed

lemma applyMoves_inv:
  assumes "buttonById i st = Some b" "contained cw ch b" "atLeastMinSize b"
    "list_all (canvasSized cw ch) es"
  shows "\<exists>b'. buttonById i (applyMoves st es) = Some b' \<and> contained cw ch b' \<and> atLeastMinSize b'"
  using assms
proof (induction es arbitrary: st b)
  case Nil
  then show ?case by (simp add: applyMoves_def)
next
  case (Cons e es)
  from Cons.prems obtain b1 where b1: "buttonById i (applyMove st e) = Some b1"
    "contained cw ch b1" "atLeastMinSize b1"
    using applyMove_inv[of i st b cw ch e] by auto
  from Cons.IH[OF b1] Cons.prems(4) show ?case by (simp add: applyMoves_def)
qed

section \<open>Containment under drag and resize\<close>

text \<open>
  Claim C1. Take any editor state, whatever its session (dragging, or resizing in any of
  the eight directions, or none), and a button of the collection that lies inside the
  canvas and is at least 50 wide and 50 high. The button is selected by its id, as the
  handlers select it: ids are unique within a chart, and \<^verbatim>\<open>find\<close> takes the first button
  that has the id. After every prefix of every
  run of mouse or touch move events measured on that canvas, with the pointer anywhere on
  or off the canvas, the button still satisfies \<open>0 \<le> x\<close>, \<open>0 \<le> y\<close>,
  \<open>x + width \<le> canvasWidth\<close>, \<open>y + height \<le> canvasHeight\<close>, \<open>width \<ge> 50\<close> and
  \<open>height \<ge> 50\<close>. A canvas that contains such a button is itself at least 50 by 50, so
  the bound of 100 on the canvas is not needed.
\<close>

theorem moves_keep_button_inside_canvas:
  assumes "buttonById i st = Some b" "contained cw ch b" "atLeastMinSize b"
    "list_all (canvasSized cw ch) es" "n \<le> length es"
  shows "\<exists>b'. buttonById i (applyMoves st (take n es)) = Some b'
           \<and> contained cw ch b' \<and> atLeastMinSize b'"
proof -
  have "list_all (canvasSized cw ch) (take n es)"
    using assms(4) by (auto simp: list_all_iff dest: in_set_takeD)
  then show ?thesis using applyMoves_inv[OF assms(1-3)] by blast
qed

theorem moves_keep_button_inside_canvas_witness:
  "\<exists>b'. buttonById ''b1''
          (applyMoves (resizing [buttonAt 10 10 100 100] Dir_nw)
             (take 2 [MouseMove (Some canvas800) (-30) 40,
                      TouchMove (Some canvas800) [(900, 700)]])) = Some b'
        \<and> contained 800 500 b' \<and> atLeastMinSize b'"
proof -
  have h1: "buttonById ''b1'' (resizing [buttonAt 10 10 100 100] Dir_nw)
              = Some (buttonAt 10 10 100 100)"
    by (simp add: buttonById_def resizing_def buttonAt_def)
  have h2: "contained 800 500 (buttonAt 10 10 100 100)"
    by (simp add: contained_def buttonAt_def)
  have h3: "atLeastMinSize (buttonAt 10 10 100 100)"
    by (simp add: atLeastMinSize_def buttonAt_def minSize_def)
  have h4: "list_all (canvasSized 800 500)
              [MouseMove (Some canvas800) (-30) 40, TouchMove (Some canvas800) [(900, 700)]]"
    by (simp add: canvasSized_def canvas800_def)
  show ?thesis
    using moves_keep_button_inside_canvas[OF h1 h2 h3 h4, of 2] by simp
qed

section \<open>Replaying a move event\<close>

text \<open>
  Claim C4 does not hold of the code. An \<open>e\<close> resize of the 50 by 50 button at
  \<open>(700, 100)\<close> with the pointer 50 units right of the 800 wide canvas (client
  \<open>x = 870\<close> for the canvas at \<open>(20, 90)\<close>) gives \<open>x = 650\<close>, \<open>width = 150\<close>: the
  boundary check pulls \<open>x\<close> back so that the candidate width fits, and the width is not
  measured again from the edge that was to stay. The same event once more therefore starts
  from the shifted \<open>x\<close> and gives \<open>x = 600\<close>, \<open>width = 200\<close>; the two states differ.
  Likewise an \<open>nw\<close> resize of the 100 by 100 button at \<open>(10, 10)\<close> with the pointer at
  canvas-local \<open>(-50, -50)\<close> gives 160 by 160 at the origin, and 210 by 210 when the event
  is replayed.
\<close>

theorem replayed_resize_grows:
  "buttons (applyMove (resizing [buttonAt 700 100 50 50] Dir_e)
              (MouseMove (Some canvas800) 870 200)) = [buttonAt 650 100 150 50]
   \<and> buttons (applyMove (applyMove (resizing [buttonAt 700 100 50 50] Dir_e)
                 (MouseMove (Some canvas800) 870 200))
              (MouseMove (Some canvas800) 870 200)) = [buttonAt 600 100 200 50]
   \<and> applyMove (applyMove (resizing [buttonAt 700 100 50 50] Dir_e)
                 (MouseMove (Some canvas800) 870 200))
              (MouseMove (Some canvas800) 870 200)
       \<noteq> applyMove (resizing [buttonAt 700 100 50 50] Dir_e)
              (MouseMove (Some canvas800) 870 200)
   \<and> buttons (applyMove (applyMove (resizing [buttonAt 10 10 100 100] Dir_nw)
                 (MouseMove (Some canvas800) (-30) 40))
              (MouseMove (Some canvas800) (-30) 40)) = [buttonAt 0 0 210 210]
   \<and> buttons (applyMove (resizing [buttonAt 10 10 100 100] Dir_nw)
              (MouseMove (Some canvas800) (-30) 40)) = [buttonAt 0 0 160 160]"
  by (simp add: handleMouseMove_def moveButton_def resizing_def buttonAt_def canvas800_def
        clampResize_def minSize_def Let_def)

section \<open>The minimum size\<close>

lemma buttons_handleMouseDown:
  "buttons (handleMouseDown onSettings button targetRect ownRect clientX clientY st) = buttons st"
  by (simp add: handleMouseDown_def Let_def split: option.splits)

lemma find_distinct_nth:
  assumes "distinct (map f xs)" "k < length xs"
  shows "find (\<lambda>b. f b = f (xs ! k)) xs = Some (xs ! k)"
  using assms
proof (induction xs arbitrary: k)
  case Nil
  then show ?case by simp
next
  case (Cons a xs)
  show ?case
  proof (cases k)
    case 0
    then show ?thesis by simp
  next
    case (Suc j)
    then have j: "j < length xs" using Cons.prems(2) by simp
    then have "f (xs ! j) \<in> f ` set xs" by simp
    then have "f a \<noteq> f (xs ! j)" using Cons.prems(1) by auto
    then show ?thesis using Cons.IH[of j] Cons.prems(1) j Suc by simp
  qed
qed

lemma moveButton_ids:
  "map b_id (buttons (moveButton r cx cy st)) = map b_id (buttons st)"
proof (cases rule: moveButton_cases[of r cx cy st])
  case idle
  then show ?thesis by simp
next
  case (drag aid cur)
  show ?thesis unfolding moveButton_drag[OF drag] by (simp add: comp_def)
next
  case (resize aid cur d)
  obtain nx ny nw nh where cl: "clampResize r (resizeCandidate d cur r cx cy) = (nx, ny, nw, nh)"
    by (metis prod_cases4)
  show ?thesis unfolding moveButton_resize[OF resize cl] by (simp add: comp_def)
qed

lemma applyMoves_ids:
  "map b_id (buttons (applyMoves st es)) = map b_id (buttons st)"
proof (induction es arbitrary: st)
  case Nil
  then show ?case by (simp add: applyMoves_def)
next
  case (Cons e es)
  have "map b_id (buttons (applyMove st e)) = map b_id (buttons st)"
    by (simp add: applyMove_pointerOf moveButton_ids split: option.splits)
  with Cons.IH[of "applyMove st e"] show ?case by (simp add: applyMoves_def)
qed

lemma moveButton_min_by_id:
  assumes "buttonById i st = Some b" "atLeastMinSize b"
    "minSize \<le> r_width r" "minSize \<le> r_height r"
  shows "\<exists>b'. buttonById i (moveButton r cx cy st) = Some b' \<and> atLeastMinSize b'"
proof (cases rule: moveButton_cases[of r cx cy st])
  case idle
  then show ?thesis using assms by simp
next
  case (drag aid cur)
  define g where "g = (\<lambda>btn::ChartButton.
    btn\<lparr> b_x := max 0 (min (cx - fst (dragOffset st) - r_left r) (r_width r - b_width cur)),
         b_y := max 0 (min (cy - snd (dragOffset st) - r_top r) (r_height r - b_height cur)) \<rparr>)"
  have st': "moveButton r cx cy st =
      st\<lparr> buttons := map (\<lambda>btn. if b_id btn = aid then g btn else btn) (buttons st) \<rparr>"
    using moveButton_drag[OF drag] by (simp add: g_def)
  have gid: "\<And>b. b_id (g b) = b_id b" by (simp add: g_def)
  show ?thesis
  proof (cases "i = aid")
    case True
    then have "buttonById i (moveButton r cx cy st) = Some (g b)"
      using find_map_same[of g aid "buttons st", OF gid] assms(1)
      by (simp add: st' buttonById_def)
    moreover have "atLeastMinSize (g b)"
      using assms(2) by (simp add: g_def atLeastMinSize_def)
    ultimately show ?thesis by blast
  next
    case False
    then show ?thesis using find_map_other[of g i aid "buttons st", OF gid] assms(1,2)
      by (simp add: st' buttonById_def)
  qed
next
  case (resize aid cur d)
  obtain x0 y0 w0 h0 where cand: "resizeCandidate d cur r cx cy = (x0, y0, w0, h0)"
    by (metis prod_cases4)
  obtain nx ny nw nh where cl: "clampResize r (x0, y0, w0, h0) = (nx, ny, nw, nh)"
    by (metis prod_cases4)
  define g where "g = (\<lambda>btn::ChartButton.
    btn\<lparr> b_x := nx, b_y := ny, b_width := nw, b_height := nh \<rparr>)"
  have st': "moveButton r cx cy st =
      st\<lparr> buttons := map (\<lambda>btn. if b_id btn = aid then g btn else btn) (buttons st) \<rparr>"
    using moveButton_resize[OF resize, of r cx cy nx ny nw nh] cand cl by (simp add: g_def)
  have gid: "\<And>b. b_id (g b) = b_id b" by (simp add: g_def)
  show ?thesis
  proof (cases "i = aid")
    case True
    then have cb: "cur = b" using resize(3) assms(1) by (simp add: buttonById_def)
    then have "buttonById i (moveButton r cx cy st) = Some (g b)"
      using find_map_same[of g aid "buttons st", OF gid] resize(3) True
      by (simp add: st' buttonById_def)
    moreover have "atLeastMinSize (g b)"
      using clampResize_inv[OF _ _ assms(3,4) cl]
        resizeCandidate_sized[OF assms(2) cand[unfolded cb]]
      by (simp add: g_def atLeastMinSize_def)
    ultimately show ?thesis by blast
  next
    case False
    then show ?thesis using find_map_other[of g i aid "buttons st", OF gid] assms(1,2)
      by (simp add: st' buttonById_def)
  qed
qed

lemma applyMoves_min_by_id:
  assumes "buttonById i st = Some b" "atLeastMinSize b" "minSize \<le> cw" "minSize \<le> ch"
    "list_all (canvasSized cw ch) es"
  shows "\<exists>b'. buttonById i (applyMoves st es) = Some b' \<and> atLeastMinSize b'"
  using assms(1,2,5)
proof (induction es arbitrary: st b)
  case Nil
  then show ?case by (simp add: applyMoves_def)
next
  case (Cons e es)
  have "\<exists>b1. buttonById i (applyMove st e) = Some b1 \<and> atLeastMinSize b1"
  proof (cases "pointerOf e")
    case None
    then show ?thesis using Cons.prems(1,2) by (simp add: applyMove_pointerOf)
  next
    case (Some p)
    obtain r cx cy where p: "p = (r, cx, cy)" by (metis prod_cases3)
    have "canvasOf e = Some r"
      using Some p by (cases e) (auto split: option.splits list.splits)
    then have "r_width r = cw" "r_height r = ch"
      using Cons.prems(3) by (simp_all add: canvasSized_def)
    then show ?thesis
      using moveButton_min_by_id[OF Cons.prems(1,2), of r cx cy] assms(3,4) Some p
      by (simp add: applyMove_pointerOf)
  qed
  then obtain b1 where b1: "buttonById i (applyMove st e) = Some b1" "atLeastMinSize b1"
    by blast
  from Cons.IH[OF b1] Cons.prems(3) show ?case by (simp add: applyMoves_def)
qed

lemma buttonById_handleMouseDown:
  "buttonById i (handleMouseDown onSettings button targetRect ownRect clientX clientY st)
     = buttonById i st"
  by (simp add: buttonById_def buttons_handleMouseDown)

lemma sample_id_differs [simp]: "string_of_nat 1700000000000 \<noteq> ''b1''"
  by (simp add: string_of_nat.simps[of 1700000000000] string_of_nat.simps[of 170000000000]
        Let_def)

text \<open>
  Claim C2, as stated, fails: the button that the add action creates is 120 wide and 40
  high, the confirmation of its dialog stores it as it is, and a drag gesture changes its
  position only. After the interaction \<open>addThenDrag\<close> the collection holds one button, at
  \<open>(320, 190)\<close>, of height 40.
\<close>

theorem added_button_counterexample:
  "buttons addThenDrag = [(newButton 1700000000000 [])\<lparr> b_x := 320, b_y := 190 \<rparr>]
   \<and> b_width (newButton 1700000000000 []) = 120 \<and> b_height (newButton 1700000000000 []) = 40
   \<and> \<not> list_all atLeastMinSize (buttons addThenDrag)"
  by (simp add: addThenDrag_def handleMouseUp_def handleMouseMove_def moveButton_def
        handleMouseDown_def getResizeDirection_def tolerance_def newButtonRect_def
        handleSaveButtonProperties_def handleAddButton_def initialState_def newButton_def
        canvas800_def atLeastMinSize_def minSize_def Let_def)

text \<open>
  Claim C2, amended. On a canvas whose width and height are at least 50, a button of the
  collection that has \<open>width \<ge> 50\<close> and \<open>height \<ge> 50\<close> still has them after any run of
  drag or resize move events, and after any complete gesture: a press (mouse or touch, the
  two handlers being one), the moves, and the release. The other buttons of the chart need
  not meet the floor. The button is selected by its id, as the handlers select it; when the
  ids of the collection are distinct, as they are within a chart, this holds of the button
  at every position of the collection, and the collection keeps its length. Nothing is
  said of the add action and of the confirmation of the dialog, which apply no floor.
\<close>

theorem moves_keep_minimum_size:
  assumes "buttonById i st = Some b" "atLeastMinSize b" "minSize \<le> cw" "minSize \<le> ch"
    "list_all (canvasSized cw ch) es"
  shows "(\<exists>b'. buttonById i (applyMoves st es) = Some b' \<and> atLeastMinSize b')
       \<and> (\<exists>b'. buttonById i (handleMouseUp (applyMoves
                 (handleMouseDown onSettings button targetRect ownRect clientX clientY st) es))
               = Some b' \<and> atLeastMinSize b')
       \<and> (distinct (map b_id (buttons st)) \<longrightarrow>
            length (buttons (applyMoves st es)) = length (buttons st)
            \<and> (\<forall>k < length (buttons st).
                  atLeastMinSize (buttons st ! k) \<longrightarrow>
                  atLeastMinSize (buttons (applyMoves st es) ! k)))"
proof (intro conjI impI allI)
  show "\<exists>b'. buttonById i (applyMoves st es) = Some b' \<and> atLeastMinSize b'"
    by (rule applyMoves_min_by_id[OF assms])
next
  have "buttonById i (handleMouseDown onSettings button targetRect ownRect clientX clientY st)
          = Some b"
    using assms(1) by (simp add: buttonById_handleMouseDown)
  from applyMoves_min_by_id[OF this assms(2-5)]
  show "\<exists>b'. buttonById i (handleMouseUp (applyMoves
                 (handleMouseDown onSettings button targetRect ownRect clientX clientY st) es))
               = Some b' \<and> atLeastMinSize b'"
    by (simp add: handleMouseUp_def buttonById_def)
next
  assume d: "distinct (map b_id (buttons st))"
  have ids: "map b_id (buttons (applyMoves st es)) = map b_id (buttons st)"
    by (rule applyMoves_ids)
  then show len: "length (buttons (applyMoves st es)) = length (buttons st)"
    by (metis length_map)
  fix k assume k: "k < length (buttons st)" and s: "atLeastMinSize (buttons st ! k)"
  let ?j = "b_id (buttons st ! k)"
  have "buttonById ?j st = Some (buttons st ! k)"
    using find_distinct_nth[OF d k] by (simp add: buttonById_def)
  from applyMoves_min_by_id[OF this s assms(3-5)]
  obtain b' where b': "buttonById ?j (applyMoves st es) = Some b'" "atLeastMinSize b'"
    by blast
  have idk: "b_id (buttons (applyMoves st es) ! k) = ?j"
    using ids k len by (metis nth_map)
  have "buttonById ?j (applyMoves st es) = Some (buttons (applyMoves st es) ! k)"
    using find_distinct_nth[of b_id "buttons (applyMoves st es)" k] d ids k len idk
    by (simp add: buttonById_def)
  with b' show "atLeastMinSize (buttons (applyMoves st es) ! k)" by simp
qed

theorem moves_keep_minimum_size_witness:
  "buttons (applyMoves (resizing [newButton 1700000000000 [], buttonAt 100 100 100 100] Dir_se)
              [MouseMove (Some canvas800) 70 140])
     = [newButton 1700000000000 [], buttonAt 100 100 50 50]
   \<and> \<not> atLeastMinSize (newButton 1700000000000 [])
   \<and> (\<exists>b'. buttonById ''b1''
               (applyMoves (resizing [newButton 1700000000000 [], buttonAt 100 100 100 100] Dir_se)
                  [MouseMove (Some canvas800) 70 140]) = Some b'
            \<and> atLeastMinSize b')"
proof -
  let ?st = "resizing [newButton 1700000000000 [], buttonAt 100 100 100 100] Dir_se"
  have h1: "buttonById ''b1'' ?st = Some (buttonAt 100 100 100 100)"
    by (simp add: buttonById_def resizing_def buttonAt_def newButton_def)
  have h2: "atLeastMinSize (buttonAt 100 100 100 100)"
    by (simp add: buttonAt_def atLeastMinSize_def minSize_def)
  have h3: "minSize \<le> 800" "minSize \<le> 500"
    by (simp_all add: minSize_def)
  have h4: "list_all (canvasSized 800 500) [MouseMove (Some canvas800) 70 140]"
    by (simp add: canvasSized_def canvas800_def)
  have v: "buttons (applyMoves ?st [MouseMove (Some canvas800) 70 140])
             = [newButton 1700000000000 [], buttonAt 100 100 50 50]"
    by (simp add: applyMoves_def handleMouseMove_def moveButton_def resizing_def buttonAt_def
          newButton_def canvas800_def clampResize_def minSize_def Let_def)
  have u: "\<not> atLeastMinSize (newButton 1700000000000 [])"
    by (simp add: newButton_def atLeastMinSize_def minSize_def)
  from moves_keep_minimum_size[OF h1 h2 h3 h4] v u show ?thesis by blast
qed

section \<open>Resizing towards the north-west, past the canvas\<close>

text \<open>
  Claim C3 does not hold of the code. The button at \<open>(10, 10)\<close> of size 100 by 100, whose
  bottom-right corner is \<open>(110, 110)\<close>, is resized in direction \<open>nw\<close> on an 800 by 500
  canvas, wherever the canvas is on the screen, with the pointer at canvas-local
  \<open>(-50, -50)\<close>. The switch gives the candidate \<open>x = y = -50\<close>, \<open>width = height = 160\<close>,
  which keeps the corner; the boundary checks then pull \<open>x\<close> and \<open>y\<close> to 0, as the claim
  says, but trim the size against the canvas only, so the button ends 160 by 160 at the
  origin and its bottom-right corner \<open>(160, 160)\<close> lies beyond the original one.
\<close>

theorem nw_resize_past_canvas_moves_corner:
  "handleMouseMove (Some \<lparr> r_left = l, r_top = t, r_width = 800, r_height = 500 \<rparr>)
       (l - 50) (t - 50) (resizing [buttonAt 10 10 100 100] Dir_nw)
     = resizing [buttonAt 0 0 160 160] Dir_nw
   \<and> b_x (buttonAt 10 10 100 100) + b_width (buttonAt 10 10 100 100) = 110
   \<and> b_y (buttonAt 10 10 100 100) + b_height (buttonAt 10 10 100 100) = 110
   \<and> \<not> (b_x (buttonAt 0 0 160 160) + b_width (buttonAt 0 0 160 160) \<le> 110
         \<and> b_y (buttonAt 0 0 160 160) + b_height (buttonAt 0 0 160 160) \<le> 110)"
  by (simp add: handleMouseMove_def moveButton_def resizing_def buttonAt_def
        clampResize_def minSize_def Let_def)

section \<open>Cancelling the dialog of a new button\<close>

text \<open>The cancel handler filters the collection only when the filter has nothing to remove.\<close>

lemma cancel_never_removes:
  "buttons (handleCancelButtonProperties st) = buttons st"
  by (auto simp: handleCancelButtonProperties_def Let_def list_ex_iff filter_id_conv
        split: option.splits)

text \<open>
  Claim C5 does not hold of the code. After the add action the new button is in the
  collection, so the guard of \<^verbatim>\<open>handleCancelButtonProperties\<close> (``the edited button is
  not in the collection'') is false and the handler removes nothing: the collection after
  add and cancel is the collection before the add followed by the new button, for every
  state, creation time and list of ranges.
\<close>

theorem cancel_keeps_new_button:
  "buttons (handleCancelButtonProperties (handleAddButton now allRanges st))
     = buttons st @ [newButton now allRanges]
   \<and> buttons (handleCancelButtonProperties (handleAddButton now allRanges st)) \<noteq> buttons st"
  by (simp add: handleCancelButtonProperties_def handleAddButton_def Let_def)

section \<open>The anchor of a west or north resize\<close>

text \<open>
  What the switch computes for \<open>w\<close> and \<open>n\<close>: the moved edge follows the pointer, and the
  size is the distance from the pointer to the opposite edge, floored at 50.
\<close>

lemma west_candidate:
  "resizeCandidate Dir_w cur r cx cy =
     (cx - r_left r, b_y cur,
      max minSize (b_x cur + b_width cur - (cx - r_left r)), b_height cur)"
  by (simp add: Let_def algebra_simps)

lemma north_candidate:
  "resizeCandidate Dir_n cur r cx cy =
     (b_x cur, cy - r_top r,
      b_width cur, max minSize (b_y cur + b_height cur - (cy - r_top r)))"
  by (simp add: Let_def algebra_simps)

lemma west_anchor_kept:
  assumes "minSize \<le> b_x cur + b_width cur - (cx - r_left r)"
  shows "(case resizeCandidate Dir_w cur r cx cy of (nx, ny, nw, nh) \<Rightarrow> nx + nw)
         = b_x cur + b_width cur"
  using assms by (simp add: west_candidate)

lemma north_anchor_kept:
  assumes "minSize \<le> b_y cur + b_height cur - (cy - r_top r)"
  shows "(case resizeCandidate Dir_n cur r cx cy of (nx, ny, nw, nh) \<Rightarrow> ny + nh)
         = b_y cur + b_height cur"
  using assms by (simp add: north_candidate)

text \<open>
  Claim C6 does not hold of the code when the floor binds. The button at \<open>(100, 100)\<close> of
  size 100 by 100 has its right edge at 200. A \<open>w\<close> resize with the pointer at canvas-local
  \<open>x = 180\<close> gives the candidate \<open>x = 180\<close>, \<open>width = 50\<close>, whose right edge is 230, and the
  containment clamp leaves it so; symmetrically an \<open>n\<close> resize with the pointer at
  canvas-local \<open>y = 180\<close> moves the bottom edge from 200 to 230.
\<close>

theorem west_resize_floor_moves_right_edge:
  "resizeCandidate Dir_w (buttonAt 100 100 100 100) canvas800 200 240 = (180, 100, 50, 100)
   \<and> resizeCandidate Dir_n (buttonAt 100 100 100 100) canvas800 200 270 = (100, 180, 100, 50)
   \<and> handleMouseMove (Some canvas800) 200 240 (resizing [buttonAt 100 100 100 100] Dir_w)
       = resizing [buttonAt 180 100 50 100] Dir_w
   \<and> handleMouseMove (Some canvas800) 200 270 (resizing [buttonAt 100 100 100 100] Dir_n)
       = resizing [buttonAt 100 180 100 50] Dir_n"
  by (simp add: handleMouseMove_def moveButton_def resizing_def buttonAt_def canvas800_def
        clampResize_def minSize_def Let_def)

section \<open>Activating a button in the viewer\<close>

text \<open>
  Claim C7. \<^verbatim>\<open>handleButtonClick\<close> dispatches on the role. For \<open>exit\<close> it calls
  \<^verbatim>\<open>onBackToCharts\<close> and nothing else: the state is unchanged and the result does not
  depend on the ranges. For \<open>label\<close> it does nothing. For \<open>normal\<close> (and for a button
  without a role, which the code treats alike) it looks the linked id up among the supplied
  ranges: if some range has that id, such a range becomes the displayed range and the
  matrix view is shown, with no notice; if none has, the notice is raised and the displayed
  range is unset.
\<close>

theorem button_activation_by_role:
  "(b_type button = Some TExit \<longrightarrow> handleButtonClick allRanges button vs = (vs, [BackToCharts]))
 \<and> (b_type button = Some TLabel \<longrightarrow> handleButtonClick allRanges button vs = (vs, []))
 \<and> (b_type button = Some TNormal \<or> b_type button = None \<longrightarrow>
      ((\<exists>r \<in> set allRanges. range_id r = b_linkedItem button) \<longrightarrow>
         (\<exists>r \<in> set allRanges. range_id r = b_linkedItem button
            \<and> handleButtonClick allRanges button vs
                = (vs\<lparr> displayedRange := Some r, showMatrixView := True \<rparr>, [])))
    \<and> ((\<forall>r \<in> set allRanges. range_id r \<noteq> b_linkedItem button) \<longrightarrow>
         handleButtonClick allRanges button vs
           = (vs\<lparr> displayedRange := None \<rparr>, [Alert rangeNotFoundText])
         \<and> displayedRange (fst (handleButtonClick allRanges button vs)) = None))"
proof (intro conjI impI)
  assume "b_type button = Some TExit"
  then show "handleButtonClick allRanges button vs = (vs, [BackToCharts])"
    by (simp add: handleButtonClick_def)
next
  assume "b_type button = Some TLabel"
  then show "handleButtonClick allRanges button vs = (vs, [])"
    by (simp add: handleButtonClick_def)
next
  assume n: "b_type button = Some TNormal \<or> b_type button = None"
    and ex: "\<exists>r \<in> set allRanges. range_id r = b_linkedItem button"
  then obtain r where r: "find (\<lambda>range. range_id range = b_linkedItem button) allRanges = Some r"
    by (cases "find (\<lambda>range. range_id range = b_linkedItem button) allRanges")
       (auto simp: find_None_iff)
  then have "r \<in> set allRanges \<and> range_id r = b_linkedItem button"
    by (auto simp: find_Some_iff)
  then show "\<exists>r \<in> set allRanges. range_id r = b_linkedItem button
            \<and> handleButtonClick allRanges button vs
                = (vs\<lparr> displayedRange := Some r, showMatrixView := True \<rparr>, [])"
    using n r by (auto simp: handleButtonClick_def)
next
  assume n: "b_type button = Some TNormal \<or> b_type button = None"
    and nex: "\<forall>r \<in> set allRanges. range_id r \<noteq> b_linkedItem button"
  then have "find (\<lambda>range. range_id range = b_linkedItem button) allRanges = None"
    by (simp add: find_None_iff)
  then show r: "handleButtonClick allRanges button vs
           = (vs\<lparr> displayedRange := None \<rparr>, [Alert rangeNotFoundText])"
    using n by (auto simp: handleButtonClick_def)
  show "displayedRange (fst (handleButtonClick allRanges button vs)) = None"
    by (simp add: r)
qed

theorem button_activation_by_role_witness:
  "handleButtonClick sampleRanges otherButton emptyViewer = (emptyViewer, [BackToCharts])
   \<and> handleButtonClick sampleRanges (buttonAt 10 10 100 100) emptyViewer
       = (emptyViewer, [Alert rangeNotFoundText])
   \<and> handleButtonClick sampleRanges ((buttonAt 10 10 100 100)\<lparr> b_linkedItem := ''R3'' \<rparr>) emptyViewer
       = (\<lparr> displayedRange = Some \<lparr> range_id = ''R3'', range_name = ''BTN open'' \<rparr>,
            showMatrixView = True \<rparr>, [])"
proof -
  have e: "b_type otherButton = Some TExit"
    by (simp add: otherButton_def)
  have n: "b_type (buttonAt 10 10 100 100) = Some TNormal \<or> b_type (buttonAt 10 10 100 100) = None"
    by (simp add: buttonAt_def)
  have nf: "\<forall>r \<in> set sampleRanges. range_id r \<noteq> b_linkedItem (buttonAt 10 10 100 100)"
    by (simp add: sampleRanges_def buttonAt_def)
  have 1: "handleButtonClick sampleRanges otherButton emptyViewer = (emptyViewer, [BackToCharts])"
    using button_activation_by_role[of otherButton sampleRanges emptyViewer] e by blast
  have 2: "handleButtonClick sampleRanges (buttonAt 10 10 100 100) emptyViewer
             = (emptyViewer\<lparr> displayedRange := None \<rparr>, [Alert rangeNotFoundText])"
    using button_activation_by_role[of "buttonAt 10 10 100 100" sampleRanges emptyViewer] n nf
    by blast
  have 3: "handleButtonClick sampleRanges ((buttonAt 10 10 100 100)\<lparr> b_linkedItem := ''R3'' \<rparr>)
             emptyViewer
           = (\<lparr> displayedRange = Some \<lparr> range_id = ''R3'', range_name = ''BTN open'' \<rparr>,
                showMatrixView = True \<rparr>, [])"
    by (simp add: handleButtonClick_def sampleRanges_def buttonAt_def emptyViewer_def)
  from 1 2 3 show ?thesis by (simp add: emptyViewer_def)
qed

section \<open>The hit-zone classifier\<close>

lemmas band_defs = inLeftBand_def inRightBand_def inTopBand_def inBottomBand_def
  inSomeCorner_def inSomeBand_def

lemma getResizeDirection_Some:
  assumes "getResizeDirection rect cx cy = Some d"
  shows "inZone d (r_width rect) (r_height rect) (cx - r_left rect) (cy - r_top rect)
         \<and> (isCorner d
            \<or> \<not> inSomeCorner (r_width rect) (r_height rect) (cx - r_left rect) (cy - r_top rect))"
  using assms by (auto simp: getResizeDirection_def Let_def band_defs split: if_splits)

lemma getResizeDirection_None:
  "getResizeDirection rect cx cy = None \<longleftrightarrow>
     \<not> inSomeBand (r_width rect) (r_height rect) (cx - r_left rect) (cy - r_top rect)"
  by (auto simp: getResizeDirection_def Let_def band_defs)

lemma inSomeCorner_band: "inSomeCorner w h x y \<Longrightarrow> inSomeBand w h x y"
  by (auto simp: band_defs)

lemma corner_zone: "isCorner c \<Longrightarrow> inZone c w h x y \<Longrightarrow> inSomeCorner w h x y"
  by (cases c) (auto simp: inSomeCorner_def)

text \<open>
  Claim C8. Let \<open>(x, y)\<close> be the pointer position relative to the box \<open>rect\<close> of width \<open>w\<close>
  and height \<open>h\<close>, and let the band of a side be the positions less than 8 units from it.
  Corners have priority: a position in the bands of two adjacent sides is classified as a
  corner whose two bands hold it. Otherwise a position in some band is classified as an
  edge whose band holds it. A position in no band is classified as none (\<^verbatim>\<open>null\<close>). In
  particular, when \<open>w\<close> and \<open>h\<close> exceed 16, a position less than 8 units from the left
  side and in neither the top nor the bottom band is classified as \<open>w\<close>.
\<close>

theorem hit_zone_classification:
  fixes rect :: DOMRect and cx cy :: real
  defines "w \<equiv> r_width rect" and "h \<equiv> r_height rect"
    and "x \<equiv> cx - r_left rect" and "y \<equiv> cy - r_top rect"
  shows "tolerance = 8
       \<and> (inSomeCorner w h x y \<longrightarrow>
            (\<exists>c. getResizeDirection rect cx cy = Some c \<and> isCorner c \<and> inZone c w h x y))
       \<and> (\<not> inSomeCorner w h x y \<and> inSomeBand w h x y \<longrightarrow>
            (\<exists>d. getResizeDirection rect cx cy = Some d \<and> \<not> isCorner d \<and> inZone d w h x y))
       \<and> (\<not> inSomeBand w h x y \<longrightarrow> getResizeDirection rect cx cy = None)
       \<and> (16 < w \<and> 16 < h \<and> x < 8 \<and> \<not> y < 8 \<and> \<not> y > h - 8 \<longrightarrow>
            getResizeDirection rect cx cy = Some Dir_w)"
proof (intro conjI impI)
  show "tolerance = 8" by (simp add: tolerance_def)
next
  assume c: "inSomeCorner w h x y"
  then have "getResizeDirection rect cx cy \<noteq> None"
    using getResizeDirection_None[of rect cx cy] inSomeCorner_band[OF c]
    by (simp add: w_def h_def x_def y_def)
  then obtain d where d: "getResizeDirection rect cx cy = Some d" by auto
  from getResizeDirection_Some[OF d] c
  show "\<exists>c. getResizeDirection rect cx cy = Some c \<and> isCorner c \<and> inZone c w h x y"
    using d by (auto simp: w_def h_def x_def y_def)
next
  assume a: "\<not> inSomeCorner w h x y \<and> inSomeBand w h x y"
  then have "getResizeDirection rect cx cy \<noteq> None"
    using getResizeDirection_None[of rect cx cy] by (simp add: w_def h_def x_def y_def)
  then obtain d where d: "getResizeDirection rect cx cy = Some d" by auto
  from getResizeDirection_Some[OF d] have z: "inZone d w h x y"
    by (simp add: w_def h_def x_def y_def)
  with a have "\<not> isCorner d" using corner_zone[of d w h x y] by blast
  with d z show "\<exists>d. getResizeDirection rect cx cy = Some d \<and> \<not> isCorner d \<and> inZone d w h x y"
    by blast
next
  assume "\<not> inSomeBand w h x y"
  then show "getResizeDirection rect cx cy = None"
    using getResizeDirection_None[of rect cx cy] by (simp add: w_def h_def x_def y_def)
next
  assume "16 < w \<and> 16 < h \<and> x < 8 \<and> \<not> y < 8 \<and> \<not> y > h - 8"
  then show "getResizeDirection rect cx cy = Some Dir_w"
    by (auto simp: getResizeDirection_def Let_def tolerance_def w_def h_def x_def y_def)
qed

theorem hit_zone_classification_witness:
  "getResizeDirection newButtonRect 73 160 = Some Dir_w
   \<and> getResizeDirection newButtonRect 188 143 = Some Dir_ne
   \<and> getResizeDirection newButtonRect 130 160 = None"
proof -
  have 1: "16 < r_width newButtonRect \<and> 16 < r_height newButtonRect
           \<and> 73 - r_left newButtonRect < 8 \<and> \<not> 160 - r_top newButtonRect < 8
           \<and> \<not> 160 - r_top newButtonRect > r_height newButtonRect - 8"
    by (simp add: newButtonRect_def)
  have 2: "\<not> inSomeBand (r_width newButtonRect) (r_height newButtonRect)
               (130 - r_left newButtonRect) (160 - r_top newButtonRect)"
    by (simp add: newButtonRect_def band_defs tolerance_def)
  have 3: "getResizeDirection newButtonRect 188 143 = Some Dir_ne"
    by (simp add: getResizeDirection_def newButtonRect_def tolerance_def Let_def)
  from hit_zone_classification[of newButtonRect 73 160] 1
  have a: "getResizeDirection newButtonRect 73 160 = Some Dir_w" by blast
  from hit_zone_classification[of newButtonRect 130 160] 2
  have b: "getResizeDirection newButtonRect 130 160 = None" by blast
  from a b 3 show ?thesis by blast
qed

section \<open>The frame of a drag move\<close>

lemma moveButton_drag_frame:
  assumes "isDragging st"
  shows "\<exists>nx ny. moveButton r cx cy st =
           st\<lparr> buttons := map (\<lambda>b. if activeButtonId st = Some (b_id b)
                                     then b\<lparr> b_x := nx, b_y := ny \<rparr> else b) (buttons st) \<rparr>
         \<or> moveButton r cx cy st = st"
proof (cases rule: moveButton_cases[of r cx cy st])
  case idle
  then show ?thesis by simp
next
  case (drag aid cur)
  have "(\<lambda>b. if activeButtonId st = Some (b_id b) then f b else b)
        = (\<lambda>btn. if b_id btn = aid then f btn else btn)" for f :: "ChartButton \<Rightarrow> ChartButton"
    using drag(1) by auto
  then show ?thesis
    unfolding moveButton_drag[OF drag] by (intro exI disjI1) simp
next
  case (resize aid cur d)
  then show ?thesis using assms by simp
qed

text \<open>
  Claim C9. On a mouse or touch move event of a drag session the collection keeps its
  length and order; a button whose id is the active id may change in \<open>x\<close> and \<open>y\<close> only
  (its width, height, id, name, colour, link and role are those it had), every other button
  is unchanged, and nothing of the editor state but the collection changes.
\<close>

theorem drag_changes_only_position:
  assumes "isDragging st"
  shows "length (buttons (applyMove st e)) = length (buttons st)
       \<and> (\<forall>k < length (buttons st).
            (if activeButtonId st = Some (b_id (buttons st ! k))
             then buttons (applyMove st e) ! k
                  = (buttons st ! k)\<lparr> b_x := b_x (buttons (applyMove st e) ! k),
                                       b_y := b_y (buttons (applyMove st e) ! k) \<rparr>
             else buttons (applyMove st e) ! k = buttons st ! k))
       \<and> applyMove st e = st\<lparr> buttons := buttons (applyMove st e) \<rparr>"
proof (cases "pointerOf e")
  case None
  then show ?thesis by (simp add: applyMove_pointerOf)
next
  case (Some p)
  obtain r cx cy where p: "p = (r, cx, cy)" by (metis prod_cases3)
  have am: "applyMove st e = moveButton r cx cy st"
    using Some p by (simp add: applyMove_pointerOf)
  from moveButton_drag_frame[OF assms, of r cx cy]
  show ?thesis unfolding am by (elim exE disjE) simp_all
qed

theorem drag_changes_only_position_witness:
  "buttons (applyMove (dragging [buttonAt 700 400 50 50, otherButton] (0, 0))
              (TouchMove (Some canvas800) [(1020, 1090)]))
     = [buttonAt 750 450 50 50, otherButton]
   \<and> length (buttons (applyMove (dragging [buttonAt 700 400 50 50, otherButton] (0, 0))
                        (TouchMove (Some canvas800) [(1020, 1090)]))) = 2
   \<and> buttons (applyMove (dragging [buttonAt 700 400 50 50, otherButton] (0, 0))
                (TouchMove (Some canvas800) [(1020, 1090)])) ! 1 = otherButton"
proof -
  let ?st = "dragging [buttonAt 700 400 50 50, otherButton] (0, 0)"
  let ?e = "TouchMove (Some canvas800) [(1020, 1090)]"
  have h: "isDragging ?st" by (simp add: dragging_def)
  have v: "buttons (applyMove ?st ?e) = [buttonAt 750 450 50 50, otherButton]"
    by (simp add: handleTouchMove_def moveButton_def dragging_def buttonAt_def otherButton_def
          canvas800_def Let_def)
  from drag_changes_only_position[OF h, of ?e]
  have l: "length (buttons (applyMove ?st ?e)) = length (buttons ?st)"
    and a: "\<forall>k < length (buttons ?st).
            (if activeButtonId ?st = Some (b_id (buttons ?st ! k))
             then buttons (applyMove ?st ?e) ! k
                  = (buttons ?st ! k)\<lparr> b_x := b_x (buttons (applyMove ?st ?e) ! k),
                                        b_y := b_y (buttons (applyMove ?st ?e) ! k) \<rparr>
             else buttons (applyMove ?st ?e) ! k = buttons ?st ! k)"
    by blast+
  from l have l2: "length (buttons (applyMove ?st ?e)) = 2" by (simp add: dragging_def)
  from a[rule_format, of 1] have "buttons (applyMove ?st ?e) ! 1 = otherButton"
    by (simp add: dragging_def otherButton_def)
  with v l2 show ?thesis by blast
qed

section \<open>Confirming the property dialog\<close>

lemma parse_samples:
  "orZero (parseInt '''') = 0" "orZero (parseInt ''0'') = 0" "orZero (parseInt ''5000'') = 5000"
  by (simp_all add: orZero_def parseInt_def isDigit_def digitsValue_def)

lemma save_lookup:
  assumes "editingButton st = Some draft" "buttonById (b_id draft) st = Some b"
  shows "buttonById (b_id draft) (handleSaveButtonProperties st) = Some draft"
proof -
  have "find (\<lambda>b. b_id b = i) (map (\<lambda>btn. if b_id btn = i then draft else btn) xs)
        = map_option (\<lambda>_. draft) (find (\<lambda>b. b_id b = i) xs)" if "b_id draft = i" for i xs
    using that by (induction xs) auto
  then show ?thesis using assms by (simp add: handleSaveButtonProperties_def buttonById_def)
qed

text \<open>
  Claim C10. Confirming the dialog replaces every stored button that has the draft's id by
  the draft as it is, so the stored button found by that id is then the draft, whatever its
  size and position. Opening the dialog on a stored button \<open>b\<close>, entering nothing or \<open>0\<close>
  as width (height), and confirming stores \<open>b\<close> with width (height) 0, which is below the
  floor of 50; entering \<open>5000\<close> as width stores width 5000, which no canvas narrower than
  5000 contains.
\<close>

theorem confirm_stores_draft_verbatim:
  assumes "buttonById (b_id b) st = Some b"
  shows "buttons (handleSaveButtonProperties (st\<lparr> editingButton := Some draft \<rparr>))
           = map (\<lambda>btn. if b_id btn = b_id draft then draft else btn) (buttons st)
       \<and> (b_id draft = b_id b \<longrightarrow>
            buttonById (b_id b) (handleSaveButtonProperties (st\<lparr> editingButton := Some draft \<rparr>))
              = Some draft)
       \<and> (v = '''' \<or> v = ''0'' \<longrightarrow>
            buttonById (b_id b)
                (handleSaveButtonProperties (setDraftWidth v (handleSettingsClick b st)))
              = Some (b\<lparr> b_width := 0 \<rparr>)
          \<and> buttonById (b_id b)
                (handleSaveButtonProperties (setDraftHeight v (handleSettingsClick b st)))
              = Some (b\<lparr> b_height := 0 \<rparr>))
       \<and> \<not> atLeastMinSize (b\<lparr> b_width := 0 \<rparr>) \<and> \<not> atLeastMinSize (b\<lparr> b_height := 0 \<rparr>)
       \<and> buttonById (b_id b)
            (handleSaveButtonProperties (setDraftWidth ''5000'' (handleSettingsClick b st)))
           = Some (b\<lparr> b_width := 5000 \<rparr>)
       \<and> (0 \<le> b_x b \<and> cw < 5000 \<longrightarrow> \<not> contained cw ch (b\<lparr> b_width := 5000 \<rparr>))"
proof (intro conjI impI)
  show "buttons (handleSaveButtonProperties (st\<lparr> editingButton := Some draft \<rparr>))
           = map (\<lambda>btn. if b_id btn = b_id draft then draft else btn) (buttons st)"
    by (simp add: handleSaveButtonProperties_def)
next
  assume "b_id draft = b_id b"
  then show "buttonById (b_id b)
      (handleSaveButtonProperties (st\<lparr> editingButton := Some draft \<rparr>)) = Some draft"
    using save_lookup[of "st\<lparr> editingButton := Some draft \<rparr>" draft b] assms
    by (simp add: buttonById_def)
next
  assume v: "v = '''' \<or> v = ''0''"
  then have z: "orZero (parseInt v) = 0" using parse_samples(1,2) by auto
  show "buttonById (b_id b)
      (handleSaveButtonProperties (setDraftWidth v (handleSettingsClick b st)))
        = Some (b\<lparr> b_width := 0 \<rparr>)"
    using save_lookup[of "setDraftWidth v (handleSettingsClick b st)" "b\<lparr> b_width := 0 \<rparr>" b] assms z
    by (simp add: setDraftWidth_def handleSettingsClick_def buttonById_def)
  show "buttonById (b_id b)
      (handleSaveButtonProperties (setDraftHeight v (handleSettingsClick b st)))
        = Some (b\<lparr> b_height := 0 \<rparr>)"
    using save_lookup[of "setDraftHeight v (handleSettingsClick b st)" "b\<lparr> b_height := 0 \<rparr>" b] assms z
    by (simp add: setDraftHeight_def handleSettingsClick_def buttonById_def)
next
  show "\<not> atLeastMinSize (b\<lparr> b_width := 0 \<rparr>)" "\<not> atLeastMinSize (b\<lparr> b_height := 0 \<rparr>)"
    by (simp_all add: atLeastMinSize_def minSize_def)
next
  show "buttonById (b_id b)
      (handleSaveButtonProperties (setDraftWidth ''5000'' (handleSettingsClick b st)))
        = Some (b\<lparr> b_width := 5000 \<rparr>)"
    using save_lookup[of "setDraftWidth ''5000'' (handleSettingsClick b st)"
        "b\<lparr> b_width := 5000 \<rparr>" b] assms parse_samples(3)
    by (simp add: setDraftWidth_def handleSettingsClick_def buttonById_def)
next
  assume "0 \<le> b_x b \<and> cw < 5000"
  then show "\<not> contained cw ch (b\<lparr> b_width := 5000 \<rparr>)"
    by (simp add: contained_def)
qed

theorem confirm_stores_draft_verbatim_witness:
  "buttons (handleSaveButtonProperties
      (setDraftHeight '''' (handleSettingsClick (buttonAt 10 10 100 100)
         (initialState [otherButton, buttonAt 10 10 100 100]))))
     = [otherButton, buttonAt 10 10 100 0]
   \<and> buttonById ''b1'' (handleSaveButtonProperties
        (setDraftWidth ''0'' (handleSettingsClick (buttonAt 10 10 100 100)
           (initialState [otherButton, buttonAt 10 10 100 100]))))
       = Some (buttonAt 10 10 0 100)
   \<and> \<not> atLeastMinSize (buttonAt 10 10 0 100)"
proof -
  let ?b = "buttonAt 10 10 100 100"
  let ?st = "initialState [otherButton, ?b]"
  have h: "buttonById (b_id ?b) ?st = Some ?b"
    by (simp add: buttonById_def initialState_def buttonAt_def otherButton_def)
  have v: "buttons (handleSaveButtonProperties (setDraftHeight '''' (handleSettingsClick ?b ?st)))
             = [otherButton, buttonAt 10 10 100 0]"
    by (simp add: handleSaveButtonProperties_def setDraftHeight_def handleSettingsClick_def
          initialState_def buttonAt_def otherButton_def parse_samples)
  from confirm_stores_draft_verbatim[OF h, of ?b "''0''"]
  have "buttonById (b_id ?b)
          (handleSaveButtonProperties (setDraftWidth ''0'' (handleSettingsClick ?b ?st)))
        = Some (?b\<lparr> b_width := 0 \<rparr>)"
    and "\<not> atLeastMinSize (?b\<lparr> b_width := 0 \<rparr>)"
    by blast+
  with v show ?thesis by (simp add: buttonAt_def)
qed

end
